theory Spec2Isabelle
  imports Main "HOL-Library.AList" "HOL-Library.List_Lexorder" "HOL-Library.Char_ord"
begin

section \<open>Data model of make\_bea\_regions.py\<close>

text \<open>
  A cell of a data frame: a string, pandas' missing value \<open>NaN\<close> (also the \<open>None\<close> of a
  geometry column), or a geometry. The geometry type \<open>'g\<close> is the library's (shapely) and
  stays abstract.
\<close>

datatype 'g cell = Str string | NaN | Geom 'g

text \<open>One row of a frame: its cells by column label.\<close>

record 'g feature =
  attrs :: "(string \<times> 'g cell) list"

text \<open>
  A \<open>GeoDataFrame\<close>: the labels of all its columns in order (\<open>df.columns\<close>, the geometry
  column among them), the label of the active geometry column (\<open>None\<close>: no geometry column
  is set, as in a plain \<open>DataFrame\<close>), its rows in index order, and the declared coordinate
  reference system of the geometry column as an EPSG code (\<open>None\<close>: undeclared). Column
  labels are taken to be pairwise distinct.
\<close>

record 'g GeoDataFrame =
  columns :: "string list"
  geometry_name :: "string option"
  features :: "'g feature list"
  crs :: "nat option"

text \<open>
  The exceptions \<open>build_bea_regions\<close> can end with: its own \<open>KeyError\<close> (line 54) and
  \<open>ValueError\<close> (line 61), and those of the library calls of lines 63 to 65.
\<close>

datatype 'g error =
    KeyError
  | ValueError_missing_mapping "'g cell list"
  | ValueError_naive_geometries
  | AttributeError
  | GEOSException

subsection \<open>The module's constants\<close>

text \<open>The dict literal \<open>BEA_MAP\<close>, in source order.\<close>

definition BEA_MAP :: "(string \<times> string) list" where
  "BEA_MAP = [
    (''CT'', ''New England''), (''ME'', ''New England''), (''MA'', ''New England''),
    (''NH'', ''New England''), (''RI'', ''New England''), (''VT'', ''New England''),
    (''DE'', ''Mideast''), (''DC'', ''Mideast''), (''MD'', ''Mideast''),
    (''NJ'', ''Mideast''), (''NY'', ''Mideast''), (''PA'', ''Mideast''),
    (''IL'', ''Great Lakes''), (''IN'', ''Great Lakes''), (''MI'', ''Great Lakes''),
    (''OH'', ''Great Lakes''), (''WI'', ''Great Lakes''),
    (''IA'', ''Plains''), (''KS'', ''Plains''), (''MN'', ''Plains''), (''MO'', ''Plains''),
    (''NE'', ''Plains''), (''ND'', ''Plains''), (''SD'', ''Plains''),
    (''AL'', ''Southeast''), (''AR'', ''Southeast''), (''FL'', ''Southeast''),
    (''GA'', ''Southeast''), (''KY'', ''Southeast''), (''LA'', ''Southeast''),
    (''MS'', ''Southeast''), (''NC'', ''Southeast''), (''SC'', ''Southeast''),
    (''TN'', ''Southeast''), (''VA'', ''Southeast''), (''WV'', ''Southeast''),
    (''AZ'', ''Southwest''), (''NM'', ''Southwest''), (''OK'', ''Southwest''),
    (''TX'', ''Southwest''),
    (''CO'', ''Rocky Mountain''), (''ID'', ''Rocky Mountain''), (''MT'', ''Rocky Mountain''),
    (''UT'', ''Rocky Mountain''), (''WY'', ''Rocky Mountain''),
    (''AK'', ''Far West''), (''CA'', ''Far West''), (''HI'', ''Far West''),
    (''NV'', ''Far West''), (''OR'', ''Far West''), (''WA'', ''Far West'')]"

definition TERRITORIES :: "string set" where
  "TERRITORIES = {''PR'', ''GU'', ''VI'', ''MP'', ''AS''}"

subsection \<open>The pandas and geopandas operations the program calls\<close>

text \<open>\<open>row[c]\<close>: a row that carries no value for a column reads as \<open>NaN\<close>.\<close>

definition cell_of :: "'g feature \<Rightarrow> string \<Rightarrow> 'g cell" where
  "cell_of r c = (case map_of (attrs r) c of Some v \<Rightarrow> v | None \<Rightarrow> NaN)"

text \<open>\<open>Series.isin(S)\<close> on one cell: only a string can be in a set of strings.\<close>

fun isin :: "string set \<Rightarrow> 'g cell \<Rightarrow> bool" where
  "isin S (Str s) = (s \<in> S)"
| "isin S NaN = False"
| "isin S (Geom g) = False"

text \<open>\<open>Series.map(d)\<close> on one cell: a value that is no key of the dict becomes \<open>NaN\<close>.\<close>

fun map_dict :: "(string \<times> string) list \<Rightarrow> 'g cell \<Rightarrow> 'g cell" where
  "map_dict d (Str s) = (case map_of d s of Some v \<Rightarrow> Str v | None \<Rightarrow> NaN)"
| "map_dict d NaN = NaN"
| "map_dict d (Geom g) = NaN"

fun isna :: "'g cell \<Rightarrow> bool" where
  "isna NaN = True"
| "isna (Str s) = False"
| "isna (Geom g) = False"

text \<open>\<open>df[mask]\<close>: the rows where the mask holds; everything else is kept.\<close>

definition getitem_mask :: "('g feature \<Rightarrow> bool) \<Rightarrow> 'g GeoDataFrame \<Rightarrow> 'g GeoDataFrame" where
  "getitem_mask m df = df\<lparr>features := filter m (features df)\<rparr>"

text \<open>
  \<open>df[c] = series\<close>: an existing column is overwritten in place, a new one is appended
  as the last column. The series is given row by row.
\<close>

definition setitem ::
  "string \<Rightarrow> ('g feature \<Rightarrow> 'g cell) \<Rightarrow> 'g GeoDataFrame \<Rightarrow> 'g GeoDataFrame" where
  "setitem c f df =
     df\<lparr>columns := (if c \<in> set (columns df) then columns df else columns df @ [c]),
        features := map (\<lambda>r. r\<lparr>attrs := AList.update c (f r) (attrs r)\<rparr>) (features df)\<rparr>"

text \<open>
  \<open>df.geometry\<close> needs an active geometry column that is a column of the frame; without
  one it raises \<open>AttributeError\<close>.
\<close>

definition active_geometry :: "'g GeoDataFrame \<Rightarrow> string option" where
  "active_geometry df =
     (case geometry_name df of
        None \<Rightarrow> None
      | Some g \<Rightarrow> if g \<in> set (columns df) then Some g else None)"

text \<open>The string values of a key column; \<open>groupby\<close> has \<open>dropna=True\<close>.\<close>

fun strs :: "'g cell list \<Rightarrow> string list" where
  "strs [] = []"
| "strs (Str s # cs) = s # strs cs"
| "strs (NaN # cs) = strs cs"
| "strs (Geom g # cs) = strs cs"

text \<open>The geometries of a geometry column; the union skips missing geometries.\<close>

fun geoms :: "'g cell list \<Rightarrow> 'g list" where
  "geoms [] = []"
| "geoms (Geom g # cs) = g # geoms cs"
| "geoms (NaN # cs) = geoms cs"
| "geoms (Str s # cs) = geoms cs"

text \<open>The group keys of \<open>groupby(by)\<close>: the distinct values, sorted (\<open>sort=True\<close>).\<close>

definition group_keys :: "string \<Rightarrow> 'g GeoDataFrame \<Rightarrow> string list" where
  "group_keys by df = sort (remdups (strs (map (\<lambda>r. cell_of r by) (features df))))"

definition members :: "string \<Rightarrow> string \<Rightarrow> 'g GeoDataFrame \<Rightarrow> 'g feature list" where
  "members by k df = filter (\<lambda>r. cell_of r by = Str k) (features df)"

text \<open>\<open>aggfunc='first'\<close>: the first value of the group that is not \<open>NaN\<close>.\<close>

fun first_valid :: "'g cell list \<Rightarrow> 'g cell" where
  "first_valid [] = NaN"
| "first_valid (NaN # cs) = first_valid cs"
| "first_valid (Str s # cs) = Str s"
| "first_valid (Geom g # cs) = Geom g"

text \<open>The row \<open>dissolve\<close> makes of one group, given the union of its geometries.\<close>

definition dissolved_row ::
  "string \<Rightarrow> string \<Rightarrow> string list \<Rightarrow> 'g GeoDataFrame \<Rightarrow> string \<Rightarrow> 'g \<Rightarrow> 'g feature" where
  "dissolved_row by gname others df k u =
     \<lparr>attrs = (by, Str k) # (gname, Geom u) #
        map (\<lambda>c. (c, first_valid (map (\<lambda>r. cell_of r c) (members by k df)))) others\<rparr>"

text \<open>
  \<open>df.dissolve(by=by, as_index=False, aggfunc='first')\<close>. It reads \<open>df.geometry\<close>, groups
  the frame without its geometry column by the key column (\<open>KeyError\<close> when that leaves no
  such column), collapses the other columns of each group with \<open>first\<close> and unites the
  geometries of each group with the library's \<open>union_all\<close>. The union is a parameter; it
  returns \<open>None\<close> where the library raises \<open>GEOSException\<close>, as it can on invalid
  geometries. The result has one row per group key, the key column first, then the geometry
  column, then the others.
\<close>

definition dissolve ::
  "('g list \<Rightarrow> 'g option) \<Rightarrow> string \<Rightarrow> 'g GeoDataFrame \<Rightarrow> 'g error + 'g GeoDataFrame" where
  "dissolve union_all by df =
     (case active_geometry df of
        None \<Rightarrow> Inl AttributeError
      | Some gname \<Rightarrow>
          if by = gname \<or> by \<notin> set (columns df) then Inl KeyError
          else
            let others = filter (\<lambda>c. c \<noteq> by \<and> c \<noteq> gname) (columns df);
                keys = group_keys by df
            in case those (map (\<lambda>k. union_all (geoms (map (\<lambda>r. cell_of r gname)
                                                        (members by k df)))) keys) of
                 None \<Rightarrow> Inl GEOSException
               | Some unions \<Rightarrow>
                   Inr \<lparr>columns = by # gname # others,
                        geometry_name = Some gname,
                        features = map2 (dissolved_row by gname others df) keys unions,
                        crs = crs df\<rparr>)"

text \<open>\<open>to_crs\<close> on one cell of the geometry column.\<close>

fun transform_cell :: "('g \<Rightarrow> 'g) \<Rightarrow> 'g cell \<Rightarrow> 'g cell" where
  "transform_cell f (Geom g) = Geom (f g)"
| "transform_cell f NaN = NaN"
| "transform_cell f (Str s) = Str s"

text \<open>
  \<open>df.to_crs(target)\<close>: reads \<open>df.geometry\<close>; refuses a frame whose reference system is
  undeclared; leaves the geometries as they are when the frame is in the target system
  already; otherwise applies the library's coordinate transform (\<open>transform\<close>, a
  parameter) to every cell of the geometry column.
\<close>

definition to_crs ::
  "(nat \<Rightarrow> nat \<Rightarrow> 'g \<Rightarrow> 'g) \<Rightarrow> nat \<Rightarrow> 'g GeoDataFrame \<Rightarrow> 'g error + 'g GeoDataFrame" where
  "to_crs transform target df =
     (case active_geometry df of
        None \<Rightarrow> Inl AttributeError
      | Some gname \<Rightarrow>
          (case crs df of
             None \<Rightarrow> Inl ValueError_naive_geometries
           | Some src \<Rightarrow>
               if src = target then Inr df
               else Inr (df\<lparr>features :=
                      map (\<lambda>r. r\<lparr>attrs := AList.map_entry gname
                                   (transform_cell (transform src target)) (attrs r)\<rparr>)
                        (features df),
                    crs := Some target\<rparr>)))"

text \<open>
  \<open>df[cs]\<close> for a list of labels: \<open>KeyError\<close> when one of them is no column of the frame;
  otherwise the frame restricted to these columns. The result has an active geometry column
  (and with it a reference system) only if that column is among the labels.
\<close>

definition getitem_columns :: "string list \<Rightarrow> 'g GeoDataFrame \<Rightarrow> 'g error + 'g GeoDataFrame" where
  "getitem_columns cs df =
     (if \<not> set cs \<subseteq> set (columns df) then Inl KeyError
      else
        let geo = (case active_geometry df of None \<Rightarrow> False | Some g \<Rightarrow> g \<in> set cs) in
        Inr \<lparr>columns = cs,
             geometry_name = (if geo then active_geometry df else None),
             features = map (\<lambda>r. \<lparr>attrs = map (\<lambda>c. (c, cell_of r c)) cs\<rparr>) (features df),
             crs = (if geo then crs df else None)\<rparr>)"

subsection \<open>build\_bea\_regions\<close>

text \<open>Line 56: the frame without the territories.\<close>

definition exclude_territories :: "'g GeoDataFrame \<Rightarrow> 'g GeoDataFrame" where
  "exclude_territories states =
     getitem_mask (\<lambda>r. \<not> isin TERRITORIES (cell_of r ''STUSPS'')) states"

text \<open>Line 57: the column \<open>bea_region\<close>.\<close>

definition assign_region :: "'g GeoDataFrame \<Rightarrow> 'g GeoDataFrame" where
  "assign_region states =
     setitem ''bea_region'' (\<lambda>r. map_dict BEA_MAP (cell_of r ''STUSPS'')) states"

text \<open>Line 58: the number of rows without a region.\<close>

definition missing :: "'g GeoDataFrame \<Rightarrow> nat" where
  "missing states = length (filter (\<lambda>r. isna (cell_of r ''bea_region'')) (features states))"

text \<open>Line 60: the identifiers of the rows without a region.\<close>

definition bad :: "'g GeoDataFrame \<Rightarrow> 'g cell list" where
  "bad states =
     map (\<lambda>r. cell_of r ''STUSPS'') (filter (\<lambda>r. isna (cell_of r ''bea_region'')) (features states))"

text \<open>Lines 63 to 65: dissolve, reproject to EPSG:4326, keep the label and the geometry.\<close>

definition dissolve_to_wgs84 ::
  "('g list \<Rightarrow> 'g option) \<Rightarrow> (nat \<Rightarrow> nat \<Rightarrow> 'g \<Rightarrow> 'g) \<Rightarrow> 'g GeoDataFrame \<Rightarrow>
     'g error + 'g GeoDataFrame" where
  "dissolve_to_wgs84 union_all transform states =
     (case dissolve union_all ''bea_region'' states of
        Inl e \<Rightarrow> Inl e
      | Inr bea \<Rightarrow>
          (case to_crs transform 4326 bea of
             Inl e \<Rightarrow> Inl e
           | Inr bea' \<Rightarrow> getitem_columns [''bea_region'', ''geometry''] bea'))"

definition build_bea_regions ::
  "('g list \<Rightarrow> 'g option) \<Rightarrow> (nat \<Rightarrow> nat \<Rightarrow> 'g \<Rightarrow> 'g) \<Rightarrow> 'g GeoDataFrame \<Rightarrow>
     'g error + 'g GeoDataFrame" where
  "build_bea_regions union_all transform states =
     (if ''STUSPS'' \<notin> set (columns states) then Inl KeyError
      else
        let states' = assign_region (exclude_territories states) in
        if missing states' \<noteq> 0 then Inl (ValueError_missing_mapping (bad states'))
        else dissolve_to_wgs84 union_all transform states')"

subsection \<open>The same function over an explicit object store\<close>

text \<open>
  Python passes the frame by reference, so what the call does to its argument is a
  question about objects. The store is the list of the frames allocated so far, a reference
  is an index into it, and a fresh object is appended. \<open>states[mask]\<close> and \<open>.copy()\<close>
  each allocate a frame; the local name \<open>states\<close> is rebound to the copy, and the column
  assignment of line 57 updates that copy in place; \<open>dissolve\<close>, \<open>to_crs\<close> and the
  final column selection allocate their results.
\<close>

type_synonym 'g store = "'g GeoDataFrame list"

definition alloc :: "'g GeoDataFrame \<Rightarrow> 'g store \<Rightarrow> nat \<times> 'g store" where
  "alloc df s = (length s, s @ [df])"

definition build_bea_regions_st ::
  "('g list \<Rightarrow> 'g option) \<Rightarrow> (nat \<Rightarrow> nat \<Rightarrow> 'g \<Rightarrow> 'g) \<Rightarrow> nat \<Rightarrow> 'g store \<Rightarrow>
     ('g error + nat) \<times> 'g store" where
  "build_bea_regions_st union_all transform states s =
     (if ''STUSPS'' \<notin> set (columns (s ! states)) then (Inl KeyError, s)
      else
        let (masked, s1) = alloc (exclude_territories (s ! states)) s;
            (states', s2) = alloc (s1 ! masked) s1;
            s3 = s2[states' := assign_region (s2 ! states')]
        in
        if missing (s3 ! states') \<noteq> 0
        then (Inl (ValueError_missing_mapping (bad (s3 ! states'))), s3)
        else
          case dissolve union_all ''bea_region'' (s3 ! states') of
            Inl e \<Rightarrow> (Inl e, s3)
          | Inr df \<Rightarrow>
              let (dissolved, s4) = alloc df s3 in
              case to_crs transform 4326 (s4 ! dissolved) of
                Inl e \<Rightarrow> (Inl e, s4)
              | Inr df' \<Rightarrow>
                  let (bea, s5) = alloc df' s4 in
                  case getitem_columns [''bea_region'', ''geometry''] (s5 ! bea) of
                    Inl e \<Rightarrow> (Inl e, s5)
                  | Inr df'' \<Rightarrow> let (out, s6) = alloc df'' s5 in (Inr out, s6))"

subsection \<open>Vocabulary of the properties\<close>

text \<open>The rows that survive the exclusion of line 56.\<close>

definition kept :: "'g GeoDataFrame \<Rightarrow> 'g feature list" where
  "kept states = filter (\<lambda>r. \<not> isin TERRITORIES (cell_of r ''STUSPS'')) (features states)"

text \<open>The group label line 57 gives a row (\<open>NaN\<close>: the mapping has no entry for it).\<close>

definition region_of :: "'g feature \<Rightarrow> 'g cell" where
  "region_of r = map_dict BEA_MAP (cell_of r ''STUSPS'')"

text \<open>The mapping is exhaustive over the identifiers left after the exclusion.\<close>

definition exhaustive :: "'g GeoDataFrame \<Rightarrow> bool" where
  "exhaustive states = (\<forall>r \<in> set (kept states). region_of r \<noteq> NaN)"

text \<open>The identifiers, in row order, of the rows left after the exclusion that have no label.\<close>

definition unmapped_identifiers :: "'g GeoDataFrame \<Rightarrow> 'g cell list" where
  "unmapped_identifiers states =
     map (\<lambda>r. cell_of r ''STUSPS'') (filter (\<lambda>r. region_of r = NaN) (kept states))"

text \<open>The distinct group labels present after classification, as a set and in sorted order.\<close>

definition labels_present :: "'g GeoDataFrame \<Rightarrow> string set" where
  "labels_present states = {l. \<exists>r \<in> set (kept states). region_of r = Str l}"

definition region_labels :: "'g GeoDataFrame \<Rightarrow> string list" where
  "region_labels states = sort (remdups (strs (map region_of (kept states))))"

text \<open>The rows of one group, and their geometries as the input's geometry column holds them.\<close>

definition group_rows :: "string \<Rightarrow> 'g GeoDataFrame \<Rightarrow> 'g feature list" where
  "group_rows l states = filter (\<lambda>r. region_of r = Str l) (kept states)"

definition group_geometries :: "string \<Rightarrow> 'g GeoDataFrame \<Rightarrow> 'g list" where
  "group_geometries l states =
     (case active_geometry states of
        None \<Rightarrow> []
      | Some g \<Rightarrow> geoms (map (\<lambda>r. cell_of r g) (group_rows l states)))"

text \<open>What the library's union returns for each group, in the order of the labels.\<close>

definition group_unions :: "('g list \<Rightarrow> 'g option) \<Rightarrow> 'g GeoDataFrame \<Rightarrow> 'g option list" where
  "group_unions union_all states =
     map (\<lambda>l. union_all (group_geometries l states)) (region_labels states)"

text \<open>What \<open>to_crs\<close> does to one geometry of a frame declared in \<open>src\<close>.\<close>

definition reproject :: "(nat \<Rightarrow> nat \<Rightarrow> 'g \<Rightarrow> 'g) \<Rightarrow> nat \<Rightarrow> nat \<Rightarrow> 'g \<Rightarrow> 'g" where
  "reproject transform src target g = (if src = target then g else transform src target g)"

text \<open>The label column and the column labelled \<open>geometry\<close> of an output frame.\<close>

definition labels :: "'g GeoDataFrame \<Rightarrow> 'g cell list" where
  "labels out = map (\<lambda>r. cell_of r ''bea_region'') (features out)"

definition geometries :: "'g GeoDataFrame \<Rightarrow> 'g cell list" where
  "geometries out = map (\<lambda>r. cell_of r ''geometry'') (features out)"

text \<open>Every key of \<open>BEA_MAP\<close> is the identifier of some input row.\<close>

definition covers_all_mapped :: "'g GeoDataFrame \<Rightarrow> bool" where
  "covers_all_mapped states =
     (\<forall>k \<in> fst ` set BEA_MAP. \<exists>r \<in> set (features states). cell_of r ''STUSPS'' = Str k)"

subsection \<open>A small geometry and example frames\<close>

text \<open>
  For concrete runs a geometry is the list of the grid cells it covers: the union collects
  the cells of all members and never fails, the empty list is the empty geometry, and the
  coordinate transform renumbers the cells.
\<close>

definition cells_union :: "nat list list \<Rightarrow> nat list option" where
  "cells_union gs = Some (remdups (concat gs))"

text \<open>A union that raises on an empty member geometry, as the library can on invalid input.\<close>

definition cells_union_strict :: "nat list list \<Rightarrow> nat list option" where
  "cells_union_strict gs = (if [] \<in> set gs then None else cells_union gs)"

definition cells_transform :: "nat \<Rightarrow> nat \<Rightarrow> nat list \<Rightarrow> nat list" where
  "cells_transform src target g = map (\<lambda>c. c + 1000) g"

definition cells_empty :: "nat list \<Rightarrow> bool" where
  "cells_empty g = (g = [])"

definition row :: "string \<Rightarrow> string \<Rightarrow> nat list \<Rightarrow> nat list feature" where
  "row code name g =
     \<lparr>attrs = [(''STUSPS'', Str code), (''NAME'', Str name), (''geometry'', Geom g)]\<rparr>"

definition region :: "string \<Rightarrow> nat list \<Rightarrow> nat list feature" where
  "region l g = \<lparr>attrs = [(''bea_region'', Str l), (''geometry'', Geom g)]\<rparr>"

definition frame :: "nat list feature list \<Rightarrow> nat list GeoDataFrame" where
  "frame rs =
     \<lparr>columns = [''STUSPS'', ''NAME'', ''geometry''], geometry_name = Some ''geometry'',
      features = rs, crs = Some 4269\<rparr>"

definition regions :: "nat list feature list \<Rightarrow> nat list GeoDataFrame" where
  "regions rs =
     \<lparr>columns = [''bea_region'', ''geometry''], geometry_name = Some ''geometry'',
      features = rs, crs = Some 4326\<rparr>"

definition ex_states :: "nat list GeoDataFrame" where
  "ex_states =
     frame [row ''NY'' ''New York'' [1, 2], row ''CT'' ''Connecticut'' [3],
            row ''PR'' ''Puerto Rico'' [9], row ''NJ'' ''New Jersey'' [2, 4]]"

definition ex_regions :: "nat list GeoDataFrame" where
  "ex_regions = regions [region ''Mideast'' [1001, 1002, 1004], region ''New England'' [1003]]"

definition ex_unmapped :: "nat list GeoDataFrame" where
  "ex_unmapped =
     frame [row ''XX'' ''Atlantis'' [1], row ''CT'' ''Connecticut'' [3],
            row ''GU'' ''Guam'' [9], row ''YY'' ''Lemuria'' [5]]"

definition ex_no_column :: "nat list GeoDataFrame" where
  "ex_no_column = \<lparr>columns = [], geometry_name = None, features = [], crs = None\<rparr>"

definition ex_naive :: "nat list GeoDataFrame" where
  "ex_naive = (frame [])\<lparr>crs := None\<rparr>"

definition ex_geom :: "nat list GeoDataFrame" where
  "ex_geom = (frame [])\<lparr>columns := [''STUSPS'', ''NAME'', ''geom''], geometry_name := Some ''geom''\<rparr>"

definition ex_geom_states :: "nat list GeoDataFrame" where
  "ex_geom_states =
     \<lparr>columns = [''STUSPS'', ''geom''], geometry_name = Some ''geom'',
      features = [\<lparr>attrs = [(''STUSPS'', Str ''CT''), (''geom'', Geom [3])]\<rparr>],
      crs = Some 4269\<rparr>"

definition ex_wrong_column :: "nat list GeoDataFrame" where
  "ex_wrong_column =
     \<lparr>columns = [''NAME'', ''geometry''], geometry_name = Some ''geometry'',
      features = [\<lparr>attrs = [(''NAME'', Str ''New York''), (''geometry'', Geom [1, 2])]\<rparr>],
      crs = Some 4269\<rparr>"

definition ex_territories :: "nat list GeoDataFrame" where
  "ex_territories = frame [row ''PR'' ''Puerto Rico'' [9], row ''GU'' ''Guam'' [7]]"

definition ex_degenerate :: "nat list GeoDataFrame" where
  "ex_degenerate = frame [row ''CT'' ''Connecticut'' [], row ''NY'' ''New York'' [1, 2]]"

definition ex_degenerate_regions :: "nat list GeoDataFrame" where
  "ex_degenerate_regions = regions [region ''Mideast'' [1001, 1002], region ''New England'' []]"

definition ex_all_states :: "nat list GeoDataFrame" where
  "ex_all_states = frame (map (\<lambda>code. row code code [length code]) (''PR'' # map fst BEA_MAP))"

section \<open>Properties\<close>

subsection \<open>What each step computes\<close>

lemma cell_of_update:
  "cell_of (r\<lparr>attrs := AList.update c v (attrs r)\<rparr>) c' = (if c' = c then v else cell_of r c')"
  by (simp add: cell_of_def update_conv')

lemma cell_of_map_entry:
  "cell_of (r\<lparr>attrs := AList.map_entry c (transform_cell f) (attrs r)\<rparr>) c' =
     (if c' = c then transform_cell f (cell_of r c) else cell_of r c')"
  by (simp add: cell_of_def map_of_map_entry split: option.splits)

lemma isna_iff: "isna c \<longleftrightarrow> c = NaN"
  by (cases c) simp_all

lemma set_strs: "set (strs cs) = {s. Str s \<in> set cs}"
  by (induction cs rule: strs.induct) auto

lemma those_eq_Some:
  "those xs = Some ys \<longleftrightarrow> xs = map Some ys"
  by (induction xs arbitrary: ys) (auto split: option.splits)

lemma map_of_tabulate:
  "map_of (map (\<lambda>c. (c, f c)) cs) k = (if k \<in> set cs then Some (f k) else None)"
  by (induction cs) auto

lemma features_classified:
  "features (assign_region (exclude_territories states)) =
     map (\<lambda>r. r\<lparr>attrs := AList.update ''bea_region'' (region_of r) (attrs r)\<rparr>) (kept states)"
  by (simp add: assign_region_def exclude_territories_def setitem_def getitem_mask_def
      kept_def region_of_def)

lemma crs_classified: "crs (assign_region (exclude_territories states)) = crs states"
  by (simp add: assign_region_def exclude_territories_def setitem_def getitem_mask_def)

lemma set_columns_classified:
  "set (columns (assign_region (exclude_territories states))) =
     insert ''bea_region'' (set (columns states))"
  by (auto simp: assign_region_def exclude_territories_def setitem_def getitem_mask_def)

lemma geometry_name_classified:
  "geometry_name (assign_region (exclude_territories states)) = geometry_name states"
  by (simp add: assign_region_def exclude_territories_def setitem_def getitem_mask_def)

lemma missing_classified:
  "missing (assign_region (exclude_territories states)) = 0 \<longleftrightarrow> exhaustive states"
  by (auto simp: missing_def features_classified filter_map o_def cell_of_update isna_iff
      exhaustive_def filter_empty_conv)

lemma missing_pos_classified:
  "0 < missing (assign_region (exclude_territories states)) \<longleftrightarrow> \<not> exhaustive states"
  using missing_classified [of states] by auto

lemma bad_classified:
  "bad (assign_region (exclude_territories states)) = unmapped_identifiers states"
  by (simp add: bad_def features_classified filter_map o_def cell_of_update isna_iff
      unmapped_identifiers_def)

lemma group_keys_classified:
  "group_keys ''bea_region'' (assign_region (exclude_territories states)) = region_labels states"
  by (simp add: group_keys_def features_classified o_def cell_of_update region_labels_def)

lemma members_classified:
  "c \<noteq> ''bea_region'' \<Longrightarrow>
   map (\<lambda>r. cell_of r c) (members ''bea_region'' k (assign_region (exclude_territories states))) =
     map (\<lambda>r. cell_of r c) (group_rows k states)"
  by (simp add: members_def features_classified filter_map o_def cell_of_update group_rows_def)

text \<open>The two checks of the function itself, in the order the source makes them.\<close>

lemma build_bea_regions_checks:
  "build_bea_regions union_all transform states =
     (if ''STUSPS'' \<notin> set (columns states) then Inl KeyError
      else if \<not> exhaustive states then
        Inl (ValueError_missing_mapping (unmapped_identifiers states))
      else dissolve_to_wgs84 union_all transform (assign_region (exclude_territories states)))"
  by (simp add: build_bea_regions_def Let_def missing_pos_classified bad_classified)

lemma distinct_region_labels: "distinct (region_labels states)"
  by (simp add: region_labels_def)

lemma set_region_labels: "set (region_labels states) = labels_present states"
  by (force simp: region_labels_def set_strs labels_present_def)

text \<open>The frame \<open>dissolve\<close> returns for the classified rows, when it returns one.\<close>

lemma dissolve_classified:
  assumes "dissolve union_all ''bea_region'' (assign_region (exclude_territories states)) = Inr bea"
  shows "\<exists>g us. active_geometry states = Some g \<and> g \<noteq> ''bea_region'' \<and>
           group_unions union_all states = map Some us \<and>
           bea = \<lparr>columns = ''bea_region'' # g #
                      filter (\<lambda>c. c \<noteq> ''bea_region'' \<and> c \<noteq> g) (columns states),
                  geometry_name = Some g,
                  features = map2 (\<lambda>l u.
                      \<lparr>attrs = (''bea_region'', Str l) # (g, Geom u) #
                         map (\<lambda>c. (c, first_valid (map (\<lambda>r. cell_of r c) (group_rows l states))))
                           (filter (\<lambda>c. c \<noteq> ''bea_region'' \<and> c \<noteq> g) (columns states))\<rparr>)
                    (region_labels states) us,
                  crs = crs states\<rparr>"
proof -
  let ?cl = "assign_region (exclude_territories states)"
  from assms obtain g where ag: "active_geometry ?cl = Some g"
    by (auto simp: dissolve_def split: option.splits)
  with assms have ne: "g \<noteq> ''bea_region''"
    by (auto simp: dissolve_def split: if_splits)
  from ag ne have ags: "active_geometry states = Some g"
    by (auto simp: active_geometry_def geometry_name_classified set_columns_classified
        split: option.splits if_splits)
  have gg: "\<And>k. geoms (map (\<lambda>r. cell_of r g) (members ''bea_region'' k ?cl)) =
      group_geometries k states"
    using ne by (simp add: members_classified group_geometries_def ags)
  from assms ag ne obtain us where
    us: "those (map (\<lambda>k. union_all (group_geometries k states)) (region_labels states)) = Some us"
    and bea: "bea = \<lparr>columns = ''bea_region'' # g #
                  filter (\<lambda>c. c \<noteq> ''bea_region'' \<and> c \<noteq> g) (columns ?cl),
                geometry_name = Some g,
                features = map2 (dissolved_row ''bea_region'' g
                    (filter (\<lambda>c. c \<noteq> ''bea_region'' \<and> c \<noteq> g) (columns ?cl)) ?cl)
                  (region_labels states) us,
                crs = crs states\<rparr>"
    by (auto simp: dissolve_def Let_def gg group_keys_classified crs_classified
        split: if_splits option.splits)
  have cols: "filter (\<lambda>c. c \<noteq> ''bea_region'' \<and> c \<noteq> g) (columns ?cl) =
      filter (\<lambda>c. c \<noteq> ''bea_region'' \<and> c \<noteq> g) (columns states)"
    by (simp add: assign_region_def exclude_territories_def setitem_def getitem_mask_def)
  have rows: "\<And>l u. dissolved_row ''bea_region'' g
        (filter (\<lambda>c. c \<noteq> ''bea_region'' \<and> c \<noteq> g) (columns states)) ?cl l u =
      \<lparr>attrs = (''bea_region'', Str l) # (g, Geom u) #
         map (\<lambda>c. (c, first_valid (map (\<lambda>r. cell_of r c) (group_rows l states))))
           (filter (\<lambda>c. c \<noteq> ''bea_region'' \<and> c \<noteq> g) (columns states))\<rparr>"
    by (simp add: dissolved_row_def members_classified cong: map_cong)
  from us have "group_unions union_all states = map Some us"
    by (simp add: group_unions_def those_eq_Some)
  with ags ne bea show ?thesis
    by (simp add: cols rows)
qed

text \<open>The shape of every output of the function.\<close>

lemma build_bea_regions_Inr:
  assumes "build_bea_regions union_all transform states = Inr out"
  shows "\<exists>g us src.
           ''STUSPS'' \<in> set (columns states) \<and> exhaustive states \<and>
           active_geometry states = Some g \<and>
           group_unions union_all states = map Some us \<and> crs states = Some src \<and>
           columns out = [''bea_region'', ''geometry''] \<and>
           geometry_name out = (if g = ''geometry'' then Some ''geometry'' else None) \<and>
           crs out = (if g = ''geometry'' then Some 4326 else None) \<and>
           features out = map2 (\<lambda>l u.
               \<lparr>attrs = [(''bea_region'', Str l),
                  (''geometry'',
                     if g = ''geometry'' then Geom (reproject transform src 4326 u)
                     else first_valid (map (\<lambda>r. cell_of r ''geometry'') (group_rows l states)))]\<rparr>)
             (region_labels states) us"
proof -
  let ?cl = "assign_region (exclude_territories states)"
  from assms have col: "''STUSPS'' \<in> set (columns states)" and ex: "exhaustive states"
    and run: "dissolve_to_wgs84 union_all transform ?cl = Inr out"
    by (auto simp: build_bea_regions_checks split: if_splits)
  from run obtain bea bea' where d: "dissolve union_all ''bea_region'' ?cl = Inr bea"
    and t: "to_crs transform 4326 bea = Inr bea'"
    and s: "getitem_columns [''bea_region'', ''geometry''] bea' = Inr out"
    by (auto simp: dissolve_to_wgs84_def split: sum.splits)
  from dissolve_classified [OF d] obtain g us where
    ag: "active_geometry states = Some g" and ne: "g \<noteq> ''bea_region''"
    and un: "group_unions union_all states = map Some us"
    and bea: "bea = \<lparr>columns = ''bea_region'' # g #
                      filter (\<lambda>c. c \<noteq> ''bea_region'' \<and> c \<noteq> g) (columns states),
                  geometry_name = Some g,
                  features = map2 (\<lambda>l u.
                      \<lparr>attrs = (''bea_region'', Str l) # (g, Geom u) #
                         map (\<lambda>c. (c, first_valid (map (\<lambda>r. cell_of r c) (group_rows l states))))
                           (filter (\<lambda>c. c \<noteq> ''bea_region'' \<and> c \<noteq> g) (columns states))\<rparr>)
                    (region_labels states) us,
                  crs = crs states\<rparr>"
    by blast
  have agb: "active_geometry bea = Some g"
    by (simp add: bea active_geometry_def)
  from t agb obtain src where src: "crs states = Some src"
    by (auto simp: to_crs_def bea split: option.splits)
  from t agb src have bea': "bea' = (if src = 4326 then bea
      else bea\<lparr>features := map (\<lambda>r. r\<lparr>attrs := AList.map_entry g
                   (transform_cell (transform src 4326)) (attrs r)\<rparr>) (features bea),
               crs := Some 4326\<rparr>)"
    by (auto simp: to_crs_def bea split: option.splits if_splits)
  have agb': "active_geometry bea' = Some g" and colb': "columns bea' = columns bea"
    and crsb': "crs bea' = Some 4326"
    using agb src by (auto simp: bea' active_geometry_def bea)
  from s have sub: "''geometry'' \<in> set (columns bea)"
    by (auto simp: getitem_columns_def colb' split: if_splits)
  have cells: "map (\<lambda>r. \<lparr>attrs = map (\<lambda>c. (c, cell_of r c)) [''bea_region'', ''geometry'']\<rparr>)
        (features bea') =
      map2 (\<lambda>l u.
               \<lparr>attrs = [(''bea_region'', Str l),
                  (''geometry'',
                     if g = ''geometry'' then Geom (reproject transform src 4326 u)
                     else first_valid (map (\<lambda>r. cell_of r ''geometry'') (group_rows l states)))]\<rparr>)
             (region_labels states) us"
    using sub ne
    by (auto simp: bea' bea cell_of_map_entry o_def split_def reproject_def
        cell_of_def map_of_tabulate)
  from s sub ne have "out = \<lparr>columns = [''bea_region'', ''geometry''],
      geometry_name = (if g = ''geometry'' then Some ''geometry'' else None),
      features = map (\<lambda>r. \<lparr>attrs = map (\<lambda>c. (c, cell_of r c)) [''bea_region'', ''geometry'']\<rparr>)
        (features bea'),
      crs = (if g = ''geometry'' then Some 4326 else None)\<rparr>"
    by (auto simp: getitem_columns_def Let_def colb' agb' crsb' bea split: if_splits)
  with col ex ag un src cells show ?thesis
    by simp
qed

lemma group_unions_length:
  "group_unions union_all states = map Some us \<Longrightarrow> length us = length (region_labels states)"
  by (metis group_unions_def length_map)

lemma build_bea_regions_labels:
  assumes "build_bea_regions union_all transform states = Inr out"
  shows "labels out = map Str (region_labels states)"
    and "length (features out) = length (region_labels states)"
proof -
  from build_bea_regions_Inr [OF assms] obtain g us src where
    un: "group_unions union_all states = map Some us"
    and f: "features out = map2 (\<lambda>l u.
               \<lparr>attrs = [(''bea_region'', Str l),
                  (''geometry'',
                     if g = ''geometry'' then Geom (reproject transform src 4326 u)
                     else first_valid (map (\<lambda>r. cell_of r ''geometry'') (group_rows l states)))]\<rparr>)
             (region_labels states) us"
    by blast
  have n: "length us = length (region_labels states)"
    by (rule group_unions_length [OF un])
  have "map (\<lambda>r. cell_of r ''bea_region'') (features out) = map fst (zip (map Str (region_labels states)) us)"
    by (simp add: f cell_of_def o_def split_def zip_map1)
  with n show "labels out = map Str (region_labels states)"
    by (simp add: labels_def)
  from n show "length (features out) = length (region_labels states)"
    by (simp add: f)
qed

subsection \<open>The failures of the library calls\<close>

text \<open>
  Beside the two errors the function raises itself, a run can end in an error of lines 63
  to 65: the union of a group can raise, and the selection of line 65 raises when the
  geometry column is not labelled \<open>geometry\<close>.
\<close>

lemma union_failure_propagates:
  "build_bea_regions cells_union_strict cells_transform ex_degenerate = Inl GEOSException"
  by code_simp

lemma geometry_label_required:
  "build_bea_regions cells_union cells_transform ex_geom_states = Inl KeyError"
  by code_simp

subsection \<open>One region per group label\<close>

text \<open>
  Claim C1. Every output of the function has exactly one region per distinct group label
  present after classification: the mapping was exhaustive over the identifiers left after
  the exclusion, the output's labels are pairwise distinct, they are exactly the labels of
  the classified rows, and so the number of output rows is the number of distinct labels.
\<close>

theorem one_region_per_label:
  "\<forall>out. build_bea_regions union_all transform states = Inr out \<longrightarrow>
         exhaustive states \<and> distinct (labels out) \<and>
         set (labels out) = Str ` labels_present states \<and>
         length (features out) = card (labels_present states)"
proof (intro allI impI conjI)
  fix out
  assume ok: "build_bea_regions union_all transform states = Inr out"
  from build_bea_regions_Inr [OF ok] show "exhaustive states"
    by blast
  have l: "labels out = map Str (region_labels states)"
    and n: "length (features out) = length (region_labels states)"
    by (rule build_bea_regions_labels [OF ok])+
  show "distinct (labels out)"
    by (simp add: l distinct_map distinct_region_labels inj_on_def)
  show "set (labels out) = Str ` labels_present states"
    by (simp add: l set_region_labels)
  show "length (features out) = card (labels_present states)"
    using distinct_card [OF distinct_region_labels, of states]
    by (simp add: n set_region_labels)
qed

text \<open>The theorem at a frame of three states and one territory.\<close>

theorem one_region_per_label_witness:
  "exhaustive ex_states \<and>
   build_bea_regions cells_union cells_transform ex_states = Inr ex_regions \<and>
   labels ex_regions = [Str ''Mideast'', Str ''New England''] \<and>
   set (labels ex_regions) = Str ` labels_present ex_states \<and>
   length (features ex_regions) = card (labels_present ex_states)"
proof -
  have run: "build_bea_regions cells_union cells_transform ex_states = Inr ex_regions"
    by code_simp
  have lab: "labels ex_regions = [Str ''Mideast'', Str ''New England'']"
    by code_simp
  from one_region_per_label [of cells_union cells_transform ex_states] run lab
  show ?thesis by blast
qed

subsection \<open>Unmapped identifiers\<close>

text \<open>
  Claim C2. When some row that is not excluded has an identifier without an entry in the
  mapping, the function fails and returns no frame: the result is the error raised at line 61
  (the source's \<open>ValueError\<close>, which the specification names MappingIncompleteError), and
  its report lists the identifier of every such row, not only of the first: the row at hand
  is in it, and the identifiers reported are exactly those of the rows that are not excluded
  and have no entry.
\<close>

theorem unmapped_identifiers_all_reported:
  assumes col: "''STUSPS'' \<in> set (columns states)"
    and r: "r \<in> set (features states)"
    and kept: "\<not> isin TERRITORIES (cell_of r ''STUSPS'')"
    and unmapped: "map_dict BEA_MAP (cell_of r ''STUSPS'') = NaN"
  shows "build_bea_regions union_all transform states =
           Inl (ValueError_missing_mapping (unmapped_identifiers states))
         \<and> cell_of r ''STUSPS'' \<in> set (unmapped_identifiers states)
         \<and> set (unmapped_identifiers states) =
             {cell_of q ''STUSPS'' | q. q \<in> set (features states) \<and>
                \<not> isin TERRITORIES (cell_of q ''STUSPS'') \<and>
                map_dict BEA_MAP (cell_of q ''STUSPS'') = NaN}"
proof -
  from r kept have k: "r \<in> set (kept states)"
    by (simp add: kept_def)
  with unmapped have "\<not> exhaustive states"
    by (auto simp: exhaustive_def region_of_def)
  with col have "build_bea_regions union_all transform states =
      Inl (ValueError_missing_mapping (unmapped_identifiers states))"
    by (simp add: build_bea_regions_checks)
  moreover from k unmapped have "cell_of r ''STUSPS'' \<in> set (unmapped_identifiers states)"
    by (simp add: unmapped_identifiers_def region_of_def)
  moreover have "set (unmapped_identifiers states) =
             {cell_of q ''STUSPS'' | q. q \<in> set (features states) \<and>
                \<not> isin TERRITORIES (cell_of q ''STUSPS'') \<and>
                map_dict BEA_MAP (cell_of q ''STUSPS'') = NaN}"
    by (auto simp: unmapped_identifiers_def kept_def region_of_def)
  ultimately show ?thesis by blast
qed

text \<open>The theorem at a frame with two unmapped identifiers around a mapped and an excluded one.\<close>

theorem unmapped_identifiers_all_reported_witness:
  "''STUSPS'' \<in> set (columns ex_unmapped) \<and>
   row ''XX'' ''Atlantis'' [1] \<in> set (features ex_unmapped) \<and>
   \<not> isin TERRITORIES (cell_of (row ''XX'' ''Atlantis'' [1]) ''STUSPS'') \<and>
   map_dict BEA_MAP (cell_of (row ''XX'' ''Atlantis'' [1]) ''STUSPS'') = NaN \<and>
   unmapped_identifiers ex_unmapped = [Str ''XX'', Str ''YY''] \<and>
   build_bea_regions cells_union cells_transform ex_unmapped =
     Inl (ValueError_missing_mapping [Str ''XX'', Str ''YY''])"
proof -
  have h1: "''STUSPS'' \<in> set (columns ex_unmapped)"
    by (simp add: ex_unmapped_def frame_def)
  have h2: "row ''XX'' ''Atlantis'' [1] \<in> set (features ex_unmapped)"
    by (simp add: ex_unmapped_def frame_def)
  have h3: "\<not> isin TERRITORIES (cell_of (row ''XX'' ''Atlantis'' [1]) ''STUSPS'')"
    by (simp add: row_def cell_of_def TERRITORIES_def)
  have h4: "map_dict BEA_MAP (cell_of (row ''XX'' ''Atlantis'' [1]) ''STUSPS'') = NaN"
    by code_simp
  have ids: "unmapped_identifiers ex_unmapped = [Str ''XX'', Str ''YY'']"
    by code_simp
  from unmapped_identifiers_all_reported [OF h1 h2 h3 h4, of cells_union cells_transform]
    h1 h2 h3 h4 ids
  show ?thesis by simp
qed

subsection \<open>Union first, reprojection afterwards\<close>

text \<open>
  Claim C3. In every output that has geometries (the input's geometry column is labelled
  \<open>geometry\<close>), the geometry of each region is the union of the geometries of the group's
  input rows, taken as the input's geometry column holds them (in the source reference
  system), and the reprojection to the target system EPSG:4326 is applied to that union, in
  the same way for every region; the output frame is declared in EPSG:4326. So the union
  never sees reprojected coordinates. An output whose input has its geometries under
  another label has no geometry column at all.
\<close>

theorem union_in_native_system_then_reprojected:
  "\<forall>out. build_bea_regions union_all transform states = Inr out \<longrightarrow>
      labels out = map Str (region_labels states) \<and>
      (active_geometry states \<noteq> Some ''geometry'' \<longrightarrow> geometry_name out = None) \<and>
      (active_geometry states = Some ''geometry'' \<longrightarrow>
         (\<exists>src us. crs states = Some src \<and>
            geometry_name out = Some ''geometry'' \<and> crs out = Some 4326 \<and>
            map (\<lambda>l. union_all (group_geometries l states)) (region_labels states) =
              map Some us \<and>
            geometries out = map (\<lambda>u. Geom (reproject transform src 4326 u)) us))"
proof (intro allI impI conjI)
  fix out
  assume ok: "build_bea_regions union_all transform states = Inr out"
  show "labels out = map Str (region_labels states)"
    by (rule build_bea_regions_labels [OF ok])
  from build_bea_regions_Inr [OF ok] obtain g us src where
    ag: "active_geometry states = Some g"
    and un: "group_unions union_all states = map Some us" and src: "crs states = Some src"
    and gn: "geometry_name out = (if g = ''geometry'' then Some ''geometry'' else None)"
    and c: "crs out = (if g = ''geometry'' then Some 4326 else None)"
    and f: "features out = map2 (\<lambda>l u.
               \<lparr>attrs = [(''bea_region'', Str l),
                  (''geometry'',
                     if g = ''geometry'' then Geom (reproject transform src 4326 u)
                     else first_valid (map (\<lambda>r. cell_of r ''geometry'') (group_rows l states)))]\<rparr>)
             (region_labels states) us"
    by blast
  {
    assume "active_geometry states \<noteq> Some ''geometry''"
    with ag gn show "geometry_name out = None"
      by simp
  }
  {
    assume "active_geometry states = Some ''geometry''"
    with ag have g: "g = ''geometry''"
      by simp
    have n: "length us = length (region_labels states)"
      by (rule group_unions_length [OF un])
    have "geometries out =
        map (\<lambda>u. Geom (reproject transform src 4326 u)) (map snd (zip (region_labels states) us))"
      by (simp add: geometries_def f g cell_of_def o_def split_def)
    with n have "geometries out = map (\<lambda>u. Geom (reproject transform src 4326 u)) us"
      by simp
    with src gn c un g
    show "\<exists>src us. crs states = Some src \<and>
            geometry_name out = Some ''geometry'' \<and> crs out = Some 4326 \<and>
            map (\<lambda>l. union_all (group_geometries l states)) (region_labels states) =
              map Some us \<and>
            geometries out = map (\<lambda>u. Geom (reproject transform src 4326 u)) us"
      by (auto simp: group_unions_def)
  }
qed

text \<open>The theorem at the frame of three states and one territory, declared in EPSG:4269.\<close>

theorem union_in_native_system_then_reprojected_witness:
  "active_geometry ex_states = Some ''geometry'' \<and> crs ex_states = Some 4269 \<and>
   build_bea_regions cells_union cells_transform ex_states = Inr ex_regions \<and>
   crs ex_regions = Some 4326 \<and>
   region_labels ex_states = [''Mideast'', ''New England''] \<and>
   group_geometries ''Mideast'' ex_states = [[1, 2], [2, 4]] \<and>
   group_geometries ''New England'' ex_states = [[3]] \<and>
   cells_union [[1, 2], [2, 4]] = Some [1, 2, 4] \<and> cells_union [[3]] = Some [3] \<and>
   geometries ex_regions =
     [Geom (cells_transform 4269 4326 [1, 2, 4]), Geom (cells_transform 4269 4326 [3])]"
proof -
  have run: "build_bea_regions cells_union cells_transform ex_states = Inr ex_regions"
    by code_simp
  have pre: "active_geometry ex_states = Some ''geometry'' \<and> crs ex_states = Some 4269"
    by code_simp
  have ls: "region_labels ex_states = [''Mideast'', ''New England'']"
    by code_simp
  have g1: "group_geometries ''Mideast'' ex_states = [[1, 2], [2, 4]]"
    by code_simp
  have g2: "group_geometries ''New England'' ex_states = [[3]]"
    by code_simp
  have u: "cells_union [[1, 2], [2, 4]] = Some [1, 2, 4] \<and> cells_union [[3]] = Some [3]"
    by code_simp
  from union_in_native_system_then_reprojected [of cells_union cells_transform ex_states]
    run pre
  obtain src us where "crs ex_states = Some src" and "crs ex_regions = Some 4326"
    and "map (\<lambda>l. cells_union (group_geometries l ex_states)) (region_labels ex_states) =
           map Some us"
    and "geometries ex_regions = map (\<lambda>u. Geom (reproject cells_transform src 4326 u)) us"
    by blast
  with run pre ls g1 g2 u show ?thesis
    by (auto simp: reproject_def)
qed

subsection \<open>Exclusions\<close>

lemma kept_exclude_territories: "kept (exclude_territories states) = kept states"
  by (simp add: kept_def exclude_territories_def getitem_mask_def)

lemma build_depends_on_kept:
  assumes "columns a = columns b" and "geometry_name a = geometry_name b"
    and "crs a = crs b" and "kept a = kept b"
  shows "build_bea_regions union_all transform a = build_bea_regions union_all transform b"
proof -
  from assms(4) have "exhaustive a = exhaustive b"
    and "unmapped_identifiers a = unmapped_identifiers b"
    by (simp_all add: exhaustive_def unmapped_identifiers_def)
  moreover from assms have "assign_region (exclude_territories a) =
      assign_region (exclude_territories b)"
    by (simp add: assign_region_def exclude_territories_def setitem_def getitem_mask_def
        kept_def)
  ultimately show ?thesis
    using assms(1) by (simp add: build_bea_regions_checks)
qed

text \<open>
  Claim C4. Rows whose identifier is in the exclusion set are removed before the mapping is
  checked, without an error: the result of the function is its result on the frame without
  those rows, that frame holds no excluded row, and a report of unmapped identifiers never
  names an excluded row's identifier. So an excluded identifier that has no entry in the
  mapping causes no failure and reaches no output region.
\<close>

theorem excluded_rows_silently_dropped:
  "build_bea_regions union_all transform states =
     build_bea_regions union_all transform (exclude_territories states)
   \<and> (\<forall>r \<in> set (features (exclude_territories states)).
         \<not> isin TERRITORIES (cell_of r ''STUSPS''))
   \<and> (\<forall>ids. build_bea_regions union_all transform states = Inl (ValueError_missing_mapping ids) \<longrightarrow>
         (\<forall>r \<in> set (features states). isin TERRITORIES (cell_of r ''STUSPS'') \<longrightarrow>
            cell_of r ''STUSPS'' \<notin> set ids))"
proof (intro conjI allI impI ballI)
  show "build_bea_regions union_all transform states =
     build_bea_regions union_all transform (exclude_territories states)"
  proof (rule build_depends_on_kept)
    show "columns states = columns (exclude_territories states)"
      by (simp add: exclude_territories_def getitem_mask_def)
    show "geometry_name states = geometry_name (exclude_territories states)"
      by (simp add: exclude_territories_def getitem_mask_def)
    show "crs states = crs (exclude_territories states)"
      by (simp add: exclude_territories_def getitem_mask_def)
    show "kept states = kept (exclude_territories states)"
      by (simp add: kept_exclude_territories)
  qed
next
  fix r
  assume "r \<in> set (features (exclude_territories states))"
  then show "\<not> isin TERRITORIES (cell_of r ''STUSPS'')"
    by (simp add: exclude_territories_def getitem_mask_def)
next
  fix ids r
  assume fail: "build_bea_regions union_all transform states = Inl (ValueError_missing_mapping ids)"
    and r: "r \<in> set (features states)" and t: "isin TERRITORIES (cell_of r ''STUSPS'')"
  have "dissolve_to_wgs84 union_all transform (assign_region (exclude_territories states)) \<noteq>
      Inl (ValueError_missing_mapping ids)"
    by (auto simp: dissolve_to_wgs84_def dissolve_def to_crs_def getitem_columns_def Let_def
        split: option.splits sum.splits if_splits)
  with fail have "ids = unmapped_identifiers states"
    by (auto simp: build_bea_regions_checks split: if_splits)
  with t show "cell_of r ''STUSPS'' \<notin> set ids"
    by (auto simp: unmapped_identifiers_def kept_def)
qed

text \<open>
  The theorem at a frame where Guam, excluded and without an entry in the mapping, stands
  beside two unmapped identifiers: only those two are reported.
\<close>

theorem excluded_rows_silently_dropped_witness:
  "row ''GU'' ''Guam'' [9] \<in> set (features ex_unmapped) \<and>
   isin TERRITORIES (cell_of (row ''GU'' ''Guam'' [9]) ''STUSPS'') \<and>
   map_dict BEA_MAP (cell_of (row ''GU'' ''Guam'' [9]) ''STUSPS'') = NaN \<and>
   build_bea_regions cells_union cells_transform ex_unmapped =
     Inl (ValueError_missing_mapping [Str ''XX'', Str ''YY'']) \<and>
   cell_of (row ''GU'' ''Guam'' [9]) ''STUSPS'' \<notin> set [Str ''XX'', Str ''YY''] \<and>
   build_bea_regions cells_union cells_transform (exclude_territories ex_unmapped) =
     Inl (ValueError_missing_mapping [Str ''XX'', Str ''YY''])"
proof -
  have h1: "row ''GU'' ''Guam'' [9] \<in> set (features ex_unmapped)"
    by (simp add: ex_unmapped_def frame_def)
  have h2: "isin TERRITORIES (cell_of (row ''GU'' ''Guam'' [9]) ''STUSPS'')"
    by (simp add: row_def cell_of_def TERRITORIES_def)
  have h3: "map_dict BEA_MAP (cell_of (row ''GU'' ''Guam'' [9]) ''STUSPS'') = NaN"
    by code_simp
  have run: "build_bea_regions cells_union cells_transform ex_unmapped =
     Inl (ValueError_missing_mapping [Str ''XX'', Str ''YY''])"
    by code_simp
  from excluded_rows_silently_dropped [of cells_union cells_transform ex_unmapped] h1 h2 h3 run
  show ?thesis by auto
qed

subsection \<open>Degenerate unions\<close>

text \<open>
  Claim C5, as stated, fails: a group whose union is the empty geometry does not make the
  function fail. In the frame below Connecticut has an empty geometry and is alone in its
  group; the union of the group is empty, and the function returns the region set, with an
  empty geometry for New England.
\<close>

theorem degenerate_union_counterexample:
  "cells_union (group_geometries ''New England'' ex_degenerate) = Some [] \<and> cells_empty [] \<and>
   build_bea_regions cells_union cells_transform ex_degenerate = Inr ex_degenerate_regions \<and>
   labels ex_degenerate_regions ! 1 = Str ''New England'' \<and>
   geometries ex_degenerate_regions ! 1 = Geom []"
  by code_simp

text \<open>
  Claim C5, amended. What the union returns for a group is not checked: in every output,
  the region of each group present carries the reprojected geometry the union returned for
  that group, whatever that geometry is.
\<close>

theorem union_result_returned_unchecked:
  assumes "build_bea_regions union_all transform states = Inr out"
    and "active_geometry states = Some ''geometry''"
    and "l \<in> labels_present states"
  shows "\<exists>u src. union_all (group_geometries l states) = Some u \<and> crs states = Some src \<and>
           \<lparr>attrs = [(''bea_region'', Str l),
                     (''geometry'', Geom (reproject transform src 4326 u))]\<rparr> \<in> set (features out)"
proof -
  from build_bea_regions_Inr [OF assms(1)] assms(2) obtain us src where
    un: "group_unions union_all states = map Some us" and src: "crs states = Some src"
    and f: "features out = map2 (\<lambda>l u.
               \<lparr>attrs = [(''bea_region'', Str l),
                  (''geometry'', Geom (reproject transform src 4326 u))]\<rparr>)
             (region_labels states) us"
    by auto
  have n: "length us = length (region_labels states)"
    by (rule group_unions_length [OF un])
  from assms(3) obtain i where i: "i < length (region_labels states)"
    and li: "region_labels states ! i = l"
    by (auto simp: set_region_labels [symmetric] in_set_conv_nth)
  from un i li n have u: "union_all (group_geometries l states) = Some (us ! i)"
    by (metis group_unions_def nth_map)
  from i n li have "(l, us ! i) \<in> set (zip (region_labels states) us)"
    by (auto simp: in_set_zip)
  then have "\<lparr>attrs = [(''bea_region'', Str l),
       (''geometry'', Geom (reproject transform src 4326 (us ! i)))]\<rparr> \<in> set (features out)"
    by (force simp: f)
  with u src show ?thesis
    by blast
qed

text \<open>The theorem at the frame with the empty union.\<close>

theorem union_result_returned_unchecked_witness:
  "build_bea_regions cells_union cells_transform ex_degenerate = Inr ex_degenerate_regions \<and>
   active_geometry ex_degenerate = Some ''geometry'' \<and>
   ''New England'' \<in> labels_present ex_degenerate \<and>
   cells_union (group_geometries ''New England'' ex_degenerate) = Some [] \<and>
   crs ex_degenerate = Some 4269 \<and>
   \<lparr>attrs = [(''bea_region'', Str ''New England''),
             (''geometry'', Geom (reproject cells_transform 4269 4326 []))]\<rparr>
     \<in> set (features ex_degenerate_regions)"
proof -
  have run: "build_bea_regions cells_union cells_transform ex_degenerate =
      Inr ex_degenerate_regions"
    by code_simp
  have ag: "active_geometry ex_degenerate = Some ''geometry''"
    by code_simp
  have "''New England'' \<in> set (region_labels ex_degenerate)"
    by code_simp
  then have l: "''New England'' \<in> labels_present ex_degenerate"
    by (simp add: set_region_labels)
  have u: "cells_union (group_geometries ''New England'' ex_degenerate) = Some []"
    by code_simp
  have c: "crs ex_degenerate = Some 4269"
    by code_simp
  from union_result_returned_unchecked [OF run ag l] u c run ag l
  show ?thesis by auto
qed

subsection \<open>Empty input\<close>

text \<open>
  Claim C6, as stated, fails. Of three frames without rows, the one without a \<open>STUSPS\<close>
  column ends in the \<open>KeyError\<close> of line 54, the one whose reference system is undeclared
  ends in the \<open>ValueError\<close> of \<open>to_crs\<close>, and the one whose geometry column is labelled
  \<open>geom\<close> ends in the \<open>KeyError\<close> of the column selection of line 65.
\<close>

theorem empty_input_counterexample:
  "kept ex_no_column = [] \<and>
   build_bea_regions cells_union cells_transform ex_no_column = Inl KeyError \<and>
   kept ex_naive = [] \<and> ''STUSPS'' \<in> set (columns ex_naive) \<and>
   build_bea_regions cells_union cells_transform ex_naive = Inl ValueError_naive_geometries \<and>
   kept ex_geom = [] \<and> ''STUSPS'' \<in> set (columns ex_geom) \<and> crs ex_geom = Some 4269 \<and>
   active_geometry ex_geom = Some ''geom'' \<and>
   build_bea_regions cells_union cells_transform ex_geom = Inl KeyError"
  by code_simp

text \<open>
  Claim C6, amended. For every frame that has the \<open>STUSPS\<close> column, a geometry column
  labelled \<open>geometry\<close> and a declared reference system, and that is empty after the
  exclusion (an originally empty frame included), the function does not fail: it returns
  the empty output frame.
\<close>

theorem empty_after_exclusion_gives_empty_output:
  assumes "''STUSPS'' \<in> set (columns states)"
    and "active_geometry states = Some ''geometry''"
    and "crs states \<noteq> None"
    and "kept states = []"
  shows "build_bea_regions union_all transform states =
           Inr \<lparr>columns = [''bea_region'', ''geometry''], geometry_name = Some ''geometry'',
                features = [], crs = Some 4326\<rparr>"
proof -
  let ?cl = "assign_region (exclude_territories states)"
  from assms(4) have ex: "exhaustive states" and f: "features ?cl = []"
    by (simp_all add: exhaustive_def features_classified)
  from assms(2) have ag: "active_geometry ?cl = Some ''geometry''"
    by (auto simp: active_geometry_def geometry_name_classified set_columns_classified
        split: option.splits if_splits)
  have bc: "''bea_region'' \<in> set (columns ?cl)"
    by (simp add: set_columns_classified)
  from assms(3) obtain src where src: "crs states = Some src"
    by auto
  have "dissolve_to_wgs84 union_all transform ?cl =
      Inr \<lparr>columns = [''bea_region'', ''geometry''], geometry_name = Some ''geometry'',
           features = [], crs = Some 4326\<rparr>"
    using ag bc f src
    by (simp add: dissolve_to_wgs84_def dissolve_def group_keys_def to_crs_def
        getitem_columns_def active_geometry_def crs_classified Let_def)
  with assms(1) ex show ?thesis
    by (simp add: build_bea_regions_checks)
qed

text \<open>The theorem at a frame that holds territories only.\<close>

theorem empty_after_exclusion_gives_empty_output_witness:
  "''STUSPS'' \<in> set (columns ex_territories) \<and>
   active_geometry ex_territories = Some ''geometry'' \<and> crs ex_territories \<noteq> None \<and>
   features ex_territories \<noteq> [] \<and> kept ex_territories = [] \<and>
   build_bea_regions cells_union cells_transform ex_territories =
     Inr \<lparr>columns = [''bea_region'', ''geometry''], geometry_name = Some ''geometry'',
          features = [], crs = Some 4326\<rparr>"
proof -
  have h1: "''STUSPS'' \<in> set (columns ex_territories)"
    by (simp add: ex_territories_def frame_def)
  have h2: "active_geometry ex_territories = Some ''geometry''"
    by code_simp
  have h3: "crs ex_territories \<noteq> None"
    by (simp add: ex_territories_def frame_def)
  have h4: "kept ex_territories = []"
    by code_simp
  have ne: "features ex_territories \<noteq> []"
    by (simp add: ex_territories_def frame_def)
  from empty_after_exclusion_gives_empty_output [OF h1 h2 h3 h4, of cells_union cells_transform]
    h1 h2 h3 h4 ne
  show ?thesis by simp
qed

subsection \<open>No effect on the input frame\<close>

text \<open>The run over the store, with the allocations written out.\<close>

lemma build_bea_regions_st_result:
  assumes "states < length s"
  shows "build_bea_regions_st union_all transform states s =
     (let df = s ! states in
      if ''STUSPS'' \<notin> set (columns df) then (Inl KeyError, s)
      else
        let s3 = s @ [exclude_territories df, assign_region (exclude_territories df)] in
        if missing (assign_region (exclude_territories df)) \<noteq> 0
        then (Inl (ValueError_missing_mapping (bad (assign_region (exclude_territories df)))), s3)
        else
          case dissolve union_all ''bea_region'' (assign_region (exclude_territories df)) of
            Inl e \<Rightarrow> (Inl e, s3)
          | Inr dissolved \<Rightarrow>
              (case to_crs transform 4326 dissolved of
                 Inl e \<Rightarrow> (Inl e, s3 @ [dissolved])
               | Inr bea \<Rightarrow>
                   (case getitem_columns [''bea_region'', ''geometry''] bea of
                      Inl e \<Rightarrow> (Inl e, s3 @ [dissolved, bea])
                    | Inr out \<Rightarrow> (Inr (length s + 4), s3 @ [dissolved, bea, out]))))"
  by (simp add: build_bea_regions_st_def alloc_def Let_def nth_append list_update_append
      split: sum.splits)

text \<open>
  Claim C7. The call has no side effect on its input: after it, every frame that was in the
  store before the call, the argument among them, is as it was; the call only adds new
  frames. Its outcome is that of the function on the argument's value: the same error, or a
  reference to a newly allocated frame that holds the same output.
\<close>

theorem input_frame_unchanged:
  assumes "states < length s"
  shows "case build_bea_regions_st union_all transform states s of
           (res, s') \<Rightarrow>
             take (length s) s' = s \<and> s' ! states = s ! states \<and>
             (case res of
                Inl e \<Rightarrow> build_bea_regions union_all transform (s ! states) = Inl e
              | Inr out \<Rightarrow> length s \<le> out \<and> out < length s' \<and>
                  build_bea_regions union_all transform (s ! states) = Inr (s' ! out))"
  using assms
  by (simp add: build_bea_regions_st_result [OF assms] build_bea_regions_def
      dissolve_to_wgs84_def Let_def nth_append split: sum.splits)

text \<open>The theorem at a store that holds the frame of three states and one territory.\<close>

theorem input_frame_unchanged_witness:
  "(0::nat) < length [ex_states] \<and>
   fst (build_bea_regions_st cells_union cells_transform 0 [ex_states]) = Inr 5 \<and>
   take 1 (snd (build_bea_regions_st cells_union cells_transform 0 [ex_states])) = [ex_states] \<and>
   snd (build_bea_regions_st cells_union cells_transform 0 [ex_states]) ! 0 = ex_states \<and>
   snd (build_bea_regions_st cells_union cells_transform 0 [ex_states]) ! 5 = ex_regions"
proof -
  have h: "(0::nat) < length [ex_states]"
    by simp
  have out: "fst (build_bea_regions_st cells_union cells_transform 0 [ex_states]) = Inr 5"
    by code_simp
  have run: "build_bea_regions cells_union cells_transform ex_states = Inr ex_regions"
    by code_simp
  from input_frame_unchanged [OF h, of cells_union cells_transform] out run
  show ?thesis by (simp add: case_prod_beta)
qed

subsection \<open>The identifier column\<close>

text \<open>
  Claim C8. On a frame without a \<open>STUSPS\<close> column the function fails with \<open>KeyError\<close>,
  whatever the rows, the union and the transform are, and before any other step: over the
  store the call returns the error and the store as it was, with no frame allocated by a
  filter, an assignment or a dissolve.
\<close>

theorem missing_column_raises_key_error:
  assumes "''STUSPS'' \<notin> set (columns states)"
  shows "build_bea_regions union_all transform states = Inl KeyError \<and>
         (\<forall>s ref. ref < length s \<and> s ! ref = states \<longrightarrow>
            build_bea_regions_st union_all transform ref s = (Inl KeyError, s))"
  using assms by (auto simp: build_bea_regions_def build_bea_regions_st_def)

text \<open>The theorem at a frame with one row, a \<open>NAME\<close> column and a geometry column.\<close>

theorem missing_column_raises_key_error_witness:
  "''STUSPS'' \<notin> set (columns ex_wrong_column) \<and> features ex_wrong_column \<noteq> [] \<and>
   build_bea_regions cells_union cells_transform ex_wrong_column = Inl KeyError \<and>
   build_bea_regions_st cells_union cells_transform 0 [ex_wrong_column] =
     (Inl KeyError, [ex_wrong_column])"
proof -
  have h: "''STUSPS'' \<notin> set (columns ex_wrong_column)"
    by (simp add: ex_wrong_column_def)
  have ne: "features ex_wrong_column \<noteq> []"
    by (simp add: ex_wrong_column_def)
  from missing_column_raises_key_error [OF h, of cells_union cells_transform] h ne
  show ?thesis by simp
qed

subsection \<open>The attributes of the output\<close>



subsection \<open>The fixed mapping\<close>

lemma BEA_MAP_keys: "length BEA_MAP = 51 \<and> distinct (map fst BEA_MAP)"
  by code_simp

lemma BEA_MAP_labels: "card (snd ` set BEA_MAP) = 8"
  by code_simp

lemma BEA_MAP_TERRITORIES_disjoint: "fst ` set BEA_MAP \<inter> TERRITORIES = {}"
  by code_simp

lemma region_of_Str_iff:
  "region_of r = Str l \<longleftrightarrow> (\<exists>k. cell_of r ''STUSPS'' = Str k \<and> (k, l) \<in> set BEA_MAP)"
proof (cases "cell_of r ''STUSPS''")
  case (Str k)
  have "map_of BEA_MAP k = Some l \<longleftrightarrow> (k, l) \<in> set BEA_MAP"
    using BEA_MAP_keys by (simp add: map_of_eq_Some_iff)
  with Str show ?thesis
    by (auto simp: region_of_def split: option.splits)
next
  case NaN
  then show ?thesis by (simp add: region_of_def)
next
  case (Geom g)
  then show ?thesis by (simp add: region_of_def)
qed

lemma labels_present_covering:
  assumes "covers_all_mapped states"
  shows "labels_present states = snd ` set BEA_MAP"
proof (intro set_eqI iffI)
  fix l
  assume "l \<in> labels_present states"
  then show "l \<in> snd ` set BEA_MAP"
    by (force simp: labels_present_def region_of_Str_iff)
next
  fix l
  assume "l \<in> snd ` set BEA_MAP"
  then obtain k where kl: "(k, l) \<in> set BEA_MAP"
    by auto
  then have "k \<in> fst ` set BEA_MAP"
    by force
  with assms obtain r where r: "r \<in> set (features states)" and c: "cell_of r ''STUSPS'' = Str k"
    by (auto simp: covers_all_mapped_def)
  from \<open>k \<in> fst ` set BEA_MAP\<close> have "k \<notin> TERRITORIES"
    using BEA_MAP_TERRITORIES_disjoint by blast
  with r c have "r \<in> set (kept states)"
    by (simp add: kept_def)
  moreover from c kl have "region_of r = Str l"
    by (auto simp: region_of_Str_iff)
  ultimately show "l \<in> labels_present states"
    by (auto simp: labels_present_def)
qed

text \<open>
  Claim C10. \<open>BEA_MAP\<close> has 51 entries with pairwise distinct identifiers (the District of
  Columbia among them), its values are exactly 8 distinct region labels, and no identifier
  of \<open>TERRITORIES\<close> is a key of it. Hence for an input in which every key of the mapping
  occurs as an identifier, every output has exactly 8 regions, labelled with the 8 labels
  of the mapping.
\<close>

theorem BEA_MAP_eight_regions:
  "length BEA_MAP = 51 \<and> distinct (map fst BEA_MAP) \<and> ''DC'' \<in> fst ` set BEA_MAP \<and>
   card (snd ` set BEA_MAP) = 8 \<and>
   fst ` set BEA_MAP \<inter> TERRITORIES = {} \<and>
   (covers_all_mapped states \<longrightarrow>
      (\<forall>out. build_bea_regions union_all transform states = Inr out \<longrightarrow>
         length (features out) = 8 \<and> set (labels out) = Str ` snd ` set BEA_MAP))"
proof (intro conjI impI allI)
  show "length BEA_MAP = 51" and "distinct (map fst BEA_MAP)"
    using BEA_MAP_keys by simp_all
  show "''DC'' \<in> fst ` set BEA_MAP"
    by code_simp
  show "card (snd ` set BEA_MAP) = 8"
    by (rule BEA_MAP_labels)
  show "fst ` set BEA_MAP \<inter> TERRITORIES = {}"
    by (rule BEA_MAP_TERRITORIES_disjoint)
next
  fix out
  assume cov: "covers_all_mapped states"
    and ok: "build_bea_regions union_all transform states = Inr out"
  have l: "labels out = map Str (region_labels states)"
    and n: "length (features out) = length (region_labels states)"
    by (rule build_bea_regions_labels [OF ok])+
  from n show "length (features out) = 8"
    using distinct_card [OF distinct_region_labels, of states]
    by (simp add: set_region_labels labels_present_covering [OF cov] BEA_MAP_labels)
  from l show "set (labels out) = Str ` snd ` set BEA_MAP"
    by (simp add: set_region_labels labels_present_covering [OF cov])
qed

text \<open>
  The theorem at a frame with one row for each key of the mapping and one for Puerto Rico,
  on which the function returns an output.
\<close>

theorem BEA_MAP_eight_regions_witness:
  "covers_all_mapped ex_all_states \<and> length (features ex_all_states) = 52 \<and>
   (\<exists>out. build_bea_regions cells_union cells_transform ex_all_states = Inr out \<and>
      length (features out) = 8 \<and> set (labels out) = Str ` snd ` set BEA_MAP)"
proof -
  have cov: "covers_all_mapped ex_all_states"
    by code_simp
  have n: "length (features ex_all_states) = 52"
    by code_simp
  have "case build_bea_regions cells_union cells_transform ex_all_states of
          Inl e \<Rightarrow> False | Inr out \<Rightarrow> True"
    by code_simp
  then obtain out where
    run: "build_bea_regions cells_union cells_transform ex_all_states = Inr out"
    by (auto split: sum.splits)
  from BEA_MAP_eight_regions [of ex_all_states cells_union cells_transform] cov n run
  show ?thesis by blast
qed

end
